theory Spec2Isabelle
  imports Main "HOL-Library.Word" "HOL-Library.AList"
begin

section \<open>Data model\<close>

text \<open>
  The in-memory TTL cache of \<^verbatim>\<open>cache/cache.go\<close> and the caching decorator of
  \<^verbatim>\<open>cache/cached_repository.go\<close>, embedded sequentially: one goroutine, the mutex
  left out, the clock reading \<^verbatim>\<open>time.Now()\<close> passed in as an argument.

  A \<^verbatim>\<open>time.Time\<close> is an instant counted in nanoseconds, a \<^verbatim>\<open>time.Duration\<close> a
  number of nanoseconds; \<^verbatim>\<open>t.Add(d)\<close> is \<open>t + d\<close> and \<^verbatim>\<open>t.After(u)\<close> is \<open>u < t\<close>.
  A Go \<^verbatim>\<open>error\<close> is its message. A pointer to a struct is modelled by the struct it
  points to.
\<close>

type_synonym time = int
type_synonym duration = int
type_synonym error = string

text \<open>\<^verbatim>\<open>dto.Banner\<close> and \<^verbatim>\<open>dto.Click\<close> (dto/banner.go).\<close>

record Banner =
  ID :: int
  Name :: string
  CreatedAt :: time
  UpdatedAt :: time

record Click =
  Click_ID :: int
  Timestamp :: time
  BannerID :: int
  Click_CreatedAt :: time

text \<open>\<^verbatim>\<open>db.ClickStats\<close>, \<^verbatim>\<open>db.BannerWithStats\<close>, \<^verbatim>\<open>db.BannerClickCount\<close> (db/repository.go).\<close>

record ClickStats =
  Stats_BannerID :: int
  TotalClicks :: int
  FirstClick :: time
  LastClick :: time

record BannerWithStats =
  Stats_Banner :: "Banner option"
  ClickCount :: int
  Stats_LastClick :: "time option"

record BannerClickCount =
  Count_BannerID :: int
  BannerName :: string
  Count_ClickCount :: int

text \<open>
  The \<^verbatim>\<open>interface{}\<close> held by a cache item: the four dynamic types the facade stores.
  A type assertion \<^verbatim>\<open>value.(*dto.Banner)\<close> is a match on the constructor.
\<close>

datatype iface =
    VBanner Banner
  | VClickStats ClickStats
  | VBannerWithStats BannerWithStats
  | VTopBanners "BannerClickCount list"

record CacheItem =
  Value :: iface
  ExpiresAt :: time

text \<open>The counters are \<^verbatim>\<open>int64\<close>; \<^verbatim>\<open>Size\<close> is an \<^verbatim>\<open>int\<close> holding a \<^verbatim>\<open>len\<close>.\<close>

record CacheStats =
  Hits :: "64 word"
  Misses :: "64 word"
  Sets :: "64 word"
  Deletes :: "64 word"
  Expirations :: "64 word"
  Size :: int

text \<open>
  \<^verbatim>\<open>InMemoryCache\<close>: the Go map \<^verbatim>\<open>items\<close> is an association list (a key is looked up
  with \<open>map_of\<close>, stored with \<open>AList.update\<close>, removed with \<open>AList.delete\<close>), so that
  \<^verbatim>\<open>len\<close> and \<^verbatim>\<open>range\<close> can be computed. The ticker and the stop channel belong to the
  background goroutine, which is not modelled.
\<close>

record InMemoryCache =
  items :: "(string \<times> CacheItem) list"
  stats :: CacheStats

definition NewInMemoryCache :: InMemoryCache where
  "NewInMemoryCache =
     \<lparr>items = [],
      stats = \<lparr>Hits = 0, Misses = 0, Sets = 0, Deletes = 0, Expirations = 0, Size = 0\<rparr>\<rparr>"

section \<open>Cache store (cache/cache.go)\<close>

text \<open>\<^verbatim>\<open>IsExpired\<close>: \<^verbatim>\<open>time.Now().After(item.ExpiresAt)\<close>.\<close>

definition IsExpired :: "CacheItem \<Rightarrow> time \<Rightarrow> bool" where
  "IsExpired item now = (ExpiresAt item < now)"

text \<open>
  \<^verbatim>\<open>get\<close> returns \<^verbatim>\<open>(value, found)\<close>; the pair is an option here, \<open>None\<close> for
  \<^verbatim>\<open>(nil, false)\<close> and \<open>Some v\<close> for \<^verbatim>\<open>(v, true)\<close>, next to the cache after the call.
\<close>

definition get :: "string \<Rightarrow> time \<Rightarrow> InMemoryCache \<Rightarrow> iface option \<times> InMemoryCache" where
  "get key now c =
     (case map_of (items c) key of
        None \<Rightarrow> (None, c\<lparr>stats := (stats c)\<lparr>Misses := Misses (stats c) + 1\<rparr>\<rparr>)
      | Some item \<Rightarrow>
          if IsExpired item now then
            (None,
             c\<lparr>items := AList.delete key (items c),
               stats := (stats c)\<lparr>Expirations := Expirations (stats c) + 1,
                                  Misses := Misses (stats c) + 1\<rparr>\<rparr>)
          else (Some (Value item), c\<lparr>stats := (stats c)\<lparr>Hits := Hits (stats c) + 1\<rparr>\<rparr>))"

definition set_item :: "string \<Rightarrow> iface \<Rightarrow> duration \<Rightarrow> time \<Rightarrow> InMemoryCache \<Rightarrow> InMemoryCache" where
  "set_item key v ttl now c =
     c\<lparr>items := AList.update key \<lparr>Value = v, ExpiresAt = now + ttl\<rparr> (items c),
       stats := (stats c)\<lparr>Sets := Sets (stats c) + 1\<rparr>\<rparr>"

definition delete :: "string \<Rightarrow> InMemoryCache \<Rightarrow> InMemoryCache" where
  "delete key c =
     (case map_of (items c) key of
        None \<Rightarrow> c
      | Some item \<Rightarrow>
          c\<lparr>items := AList.delete key (items c),
            stats := (stats c)\<lparr>Deletes := Deletes (stats c) + 1\<rparr>\<rparr>)"

definition Clear :: "InMemoryCache \<Rightarrow> InMemoryCache" where
  "Clear c = c\<lparr>items := []\<rparr>"

definition Size_cache :: "InMemoryCache \<Rightarrow> int" where
  "Size_cache c = int (length (items c))"

definition Stats :: "InMemoryCache \<Rightarrow> CacheStats" where
  "Stats c = (stats c)\<lparr>Size := int (length (items c))\<rparr>"

section \<open>Cache keys\<close>

text \<open>
  Every key is a prefix followed by \<^verbatim>\<open>string(rune(id))\<close>. The conversion \<^verbatim>\<open>rune(id)\<close>
  keeps the low 32 bits of the \<^verbatim>\<open>int\<close>, read as an \<^verbatim>\<open>int32\<close>. The conversion of a rune
  to a string gives the UTF-8 encoding of that code point, and the encoding of U+FFFD
  for a value that is no valid code point (negative, above U+10FFFF, or a surrogate).
\<close>

definition rune :: "int \<Rightarrow> int" where
  "rune i = sint (word_of_int i :: 32 word)"

definition RuneError :: int where
  "RuneError = 0xFFFD"

definition utf8 :: "int \<Rightarrow> string" where
  "utf8 r =
     (if r \<le> 0x7F then [char_of r]
      else if r \<le> 0x7FF then [char_of (0xC0 + r div 64), char_of (0x80 + r mod 64)]
      else if r \<le> 0xFFFF then
        [char_of (0xE0 + r div 4096), char_of (0x80 + r div 64 mod 64),
         char_of (0x80 + r mod 64)]
      else
        [char_of (0xF0 + r div 262144), char_of (0x80 + r div 4096 mod 64),
         char_of (0x80 + r div 64 mod 64), char_of (0x80 + r mod 64)])"

definition string_of_rune :: "int \<Rightarrow> string" where
  "string_of_rune r =
     (if r < 0 \<or> 0x10FFFF < r \<or> (0xD800 \<le> r \<and> r \<le> 0xDFFF) then utf8 RuneError
      else utf8 r)"

definition banner_key :: "int \<Rightarrow> string" where
  "banner_key bid = ''banner:'' @ string_of_rune (rune bid)"

definition click_stats_key :: "int \<Rightarrow> string" where
  "click_stats_key bannerID = ''click_stats:'' @ string_of_rune (rune bannerID)"

definition banner_stats_key :: "int \<Rightarrow> string" where
  "banner_stats_key bid = ''banner_stats:'' @ string_of_rune (rune bid)"

definition top_banners_key :: "int \<Rightarrow> string" where
  "top_banners_key limit = ''top_banners:'' @ string_of_rune (rune limit)"

section \<open>Cache facade (cache/cache.go)\<close>

text \<open>
  A typed read returns \<^verbatim>\<open>(nil, false)\<close> when \<^verbatim>\<open>get\<close> finds nothing, and the outcome of
  the type assertion otherwise: \<open>None\<close> stands for \<^verbatim>\<open>found = false\<close>.
\<close>

definition GetBanner :: "int \<Rightarrow> time \<Rightarrow> InMemoryCache \<Rightarrow> Banner option \<times> InMemoryCache" where
  "GetBanner bid now c =
     (case get (banner_key bid) now c of
        (None, c') \<Rightarrow> (None, c')
      | (Some v, c') \<Rightarrow> (case v of VBanner banner \<Rightarrow> (Some banner, c') | _ \<Rightarrow> (None, c')))"

definition SetBanner :: "Banner \<Rightarrow> duration \<Rightarrow> time \<Rightarrow> InMemoryCache \<Rightarrow> InMemoryCache" where
  "SetBanner banner ttl now c = set_item (banner_key (ID banner)) (VBanner banner) ttl now c"

definition DeleteBanner :: "int \<Rightarrow> InMemoryCache \<Rightarrow> InMemoryCache" where
  "DeleteBanner bid c = delete (banner_key bid) c"

definition GetClickStats :: "int \<Rightarrow> time \<Rightarrow> InMemoryCache \<Rightarrow> ClickStats option \<times> InMemoryCache" where
  "GetClickStats bannerID now c =
     (case get (click_stats_key bannerID) now c of
        (None, c') \<Rightarrow> (None, c')
      | (Some v, c') \<Rightarrow> (case v of VClickStats st \<Rightarrow> (Some st, c') | _ \<Rightarrow> (None, c')))"

definition SetClickStats :: "int \<Rightarrow> ClickStats \<Rightarrow> duration \<Rightarrow> time \<Rightarrow> InMemoryCache \<Rightarrow> InMemoryCache" where
  "SetClickStats bannerID st ttl now c =
     set_item (click_stats_key bannerID) (VClickStats st) ttl now c"

definition InvalidateClickStats :: "int \<Rightarrow> InMemoryCache \<Rightarrow> InMemoryCache" where
  "InvalidateClickStats bannerID c = delete (click_stats_key bannerID) c"

definition GetBannerWithStats :: "int \<Rightarrow> time \<Rightarrow> InMemoryCache \<Rightarrow> BannerWithStats option \<times> InMemoryCache" where
  "GetBannerWithStats bid now c =
     (case get (banner_stats_key bid) now c of
        (None, c') \<Rightarrow> (None, c')
      | (Some v, c') \<Rightarrow> (case v of VBannerWithStats st \<Rightarrow> (Some st, c') | _ \<Rightarrow> (None, c')))"

definition SetBannerWithStats :: "int \<Rightarrow> BannerWithStats \<Rightarrow> duration \<Rightarrow> time \<Rightarrow> InMemoryCache \<Rightarrow> InMemoryCache" where
  "SetBannerWithStats bid st ttl now c =
     set_item (banner_stats_key bid) (VBannerWithStats st) ttl now c"

definition InvalidateBannerWithStats :: "int \<Rightarrow> InMemoryCache \<Rightarrow> InMemoryCache" where
  "InvalidateBannerWithStats bid c = delete (banner_stats_key bid) c"

definition GetTopBanners :: "int \<Rightarrow> time \<Rightarrow> InMemoryCache \<Rightarrow> BannerClickCount list option \<times> InMemoryCache" where
  "GetTopBanners limit now c =
     (case get (top_banners_key limit) now c of
        (None, c') \<Rightarrow> (None, c')
      | (Some v, c') \<Rightarrow> (case v of VTopBanners banners \<Rightarrow> (Some banners, c') | _ \<Rightarrow> (None, c')))"

definition SetTopBanners :: "int \<Rightarrow> BannerClickCount list \<Rightarrow> duration \<Rightarrow> time \<Rightarrow> InMemoryCache \<Rightarrow> InMemoryCache" where
  "SetTopBanners limit banners ttl now c =
     set_item (top_banners_key limit) (VTopBanners banners) ttl now c"

text \<open>
  \<^verbatim>\<open>InvalidateTopBanners\<close> ranges over the keys of the map; a key is removed when
  \<^verbatim>\<open>len(key) > 11 && key[:11] == "top_banners:"\<close>. The loop is a recursion over the keys
  present when it starts.
\<close>

fun InvalidateTopBanners_loop :: "string list \<Rightarrow> InMemoryCache \<Rightarrow> InMemoryCache" where
  "InvalidateTopBanners_loop [] c = c"
| "InvalidateTopBanners_loop (key # keys) c =
     InvalidateTopBanners_loop keys
       (if 11 < length key \<and> take 11 key = ''top_banners:'' then
          c\<lparr>items := AList.delete key (items c),
            stats := (stats c)\<lparr>Deletes := Deletes (stats c) + 1\<rparr>\<rparr>
        else c)"

definition InvalidateTopBanners :: "InMemoryCache \<Rightarrow> InMemoryCache" where
  "InvalidateTopBanners c = InvalidateTopBanners_loop (map fst (items c)) c"

definition InvalidateBanner :: "int \<Rightarrow> InMemoryCache \<Rightarrow> InMemoryCache" where
  "InvalidateBanner bid c =
     InvalidateTopBanners (InvalidateBannerWithStats bid (InvalidateClickStats bid (DeleteBanner bid c)))"

text \<open>The default TTLs, in nanoseconds.\<close>

definition Minute :: duration where
  "Minute = 60 * 1000000000"

definition DefaultBannerTTL :: duration where
  "DefaultBannerTTL = 5 * Minute"

definition DefaultClickStatsTTL :: duration where
  "DefaultClickStatsTTL = 2 * Minute"

definition DefaultBannerStatsTTL :: duration where
  "DefaultBannerStatsTTL = 3 * Minute"

definition DefaultTopBannersTTL :: duration where
  "DefaultTopBannersTTL = 1 * Minute"

section \<open>Backing store (db/repository.go)\<close>

text \<open>
  \<^verbatim>\<open>db.Repository\<close> runs SQL against an external database. It is a parameter here:
  a record of the operations the decorator calls, each a function of the database state
  \<open>'db\<close> that returns its outcome (\<open>Inl\<close> the error, \<open>Inr\<close> the result) and the state
  after the call. \<^verbatim>\<open>CreateBanner\<close> and \<^verbatim>\<open>CreateClick\<close> write the generated id into
  their argument; their result is the argument after the call.
\<close>

record 'db Repository =
  repo_CreateBanner :: "Banner \<Rightarrow> 'db \<Rightarrow> (error + Banner) \<times> 'db"
  repo_GetBannerByID :: "int \<Rightarrow> 'db \<Rightarrow> (error + Banner) \<times> 'db"
  repo_UpdateBanner :: "Banner \<Rightarrow> 'db \<Rightarrow> (error + unit) \<times> 'db"
  repo_DeleteBanner :: "int \<Rightarrow> 'db \<Rightarrow> (error + unit) \<times> 'db"
  repo_CreateClick :: "Click \<Rightarrow> 'db \<Rightarrow> (error + Click) \<times> 'db"
  repo_GetClickByID :: "int \<Rightarrow> 'db \<Rightarrow> (error + Click) \<times> 'db"
  repo_DeleteClick :: "int \<Rightarrow> 'db \<Rightarrow> (error + unit) \<times> 'db"
  repo_GetClickStats :: "int \<Rightarrow> 'db \<Rightarrow> (error + ClickStats) \<times> 'db"
  repo_GetTopBanners :: "int \<Rightarrow> 'db \<Rightarrow> (error + BannerClickCount list) \<times> 'db"

section \<open>Cached repository (cache/cached_repository.go)\<close>

text \<open>
  Every operation takes the repository, its arguments, the clock readings, the database
  state and the cache, and returns its outcome, the database state and the cache after
  the call. A read-through reads the clock twice: \<open>now\<close> in \<^verbatim>\<open>IsExpired\<close> and \<open>now'\<close>
  in \<^verbatim>\<open>set\<close>, after the backing-store call.
\<close>

definition CachedRepository_CreateBanner ::
  "'db Repository \<Rightarrow> Banner \<Rightarrow> time \<Rightarrow> 'db \<Rightarrow> InMemoryCache \<Rightarrow> (error + Banner) \<times> 'db \<times> InMemoryCache" where
  "CachedRepository_CreateBanner r banner now db c =
     (case repo_CreateBanner r banner db of
        (Inl err, db') \<Rightarrow> (Inl err, db', c)
      | (Inr banner', db') \<Rightarrow>
          (Inr banner', db', InvalidateTopBanners (SetBanner banner' DefaultBannerTTL now c)))"

definition CachedRepository_GetBannerByID ::
  "'db Repository \<Rightarrow> int \<Rightarrow> time \<Rightarrow> time \<Rightarrow> 'db \<Rightarrow> InMemoryCache \<Rightarrow> (error + Banner) \<times> 'db \<times> InMemoryCache" where
  "CachedRepository_GetBannerByID r bid now now' db c =
     (case GetBanner bid now c of
        (Some banner, c') \<Rightarrow> (Inr banner, db, c')
      | (None, c') \<Rightarrow>
          (case repo_GetBannerByID r bid db of
             (Inl err, db') \<Rightarrow> (Inl err, db', c')
           | (Inr banner, db') \<Rightarrow> (Inr banner, db', SetBanner banner DefaultBannerTTL now' c')))"

definition CachedRepository_UpdateBanner ::
  "'db Repository \<Rightarrow> Banner \<Rightarrow> time \<Rightarrow> 'db \<Rightarrow> InMemoryCache \<Rightarrow> (error + unit) \<times> 'db \<times> InMemoryCache" where
  "CachedRepository_UpdateBanner r banner now db c =
     (case repo_UpdateBanner r banner db of
        (Inl err, db') \<Rightarrow> (Inl err, db', c)
      | (Inr u, db') \<Rightarrow>
          (Inr (), db', InvalidateBanner (ID banner) (SetBanner banner DefaultBannerTTL now c)))"

definition CachedRepository_DeleteBanner ::
  "'db Repository \<Rightarrow> int \<Rightarrow> 'db \<Rightarrow> InMemoryCache \<Rightarrow> (error + unit) \<times> 'db \<times> InMemoryCache" where
  "CachedRepository_DeleteBanner r bid db c =
     (case repo_DeleteBanner r bid db of
        (Inl err, db') \<Rightarrow> (Inl err, db', c)
      | (Inr u, db') \<Rightarrow> (Inr (), db', InvalidateBanner bid c))"

definition CachedRepository_CreateClick ::
  "'db Repository \<Rightarrow> Click \<Rightarrow> 'db \<Rightarrow> InMemoryCache \<Rightarrow> (error + Click) \<times> 'db \<times> InMemoryCache" where
  "CachedRepository_CreateClick r click db c =
     (case repo_CreateClick r click db of
        (Inl err, db') \<Rightarrow> (Inl err, db', c)
      | (Inr click', db') \<Rightarrow>
          (Inr click', db',
           InvalidateTopBanners
             (InvalidateBannerWithStats (BannerID click')
               (InvalidateClickStats (BannerID click') c))))"

definition CachedRepository_DeleteClick ::
  "'db Repository \<Rightarrow> int \<Rightarrow> 'db \<Rightarrow> InMemoryCache \<Rightarrow> (error + unit) \<times> 'db \<times> InMemoryCache" where
  "CachedRepository_DeleteClick r cid db c =
     (case repo_GetClickByID r cid db of
        (Inl err, db') \<Rightarrow> (Inl err, db', c)
      | (Inr click, db') \<Rightarrow>
          (case repo_DeleteClick r cid db' of
             (Inl err, db'') \<Rightarrow> (Inl err, db'', c)
           | (Inr u, db'') \<Rightarrow>
               (Inr (), db'',
                InvalidateTopBanners
                  (InvalidateBannerWithStats (BannerID click)
                    (InvalidateClickStats (BannerID click) c)))))"

definition CachedRepository_GetClickStats ::
  "'db Repository \<Rightarrow> int \<Rightarrow> time \<Rightarrow> time \<Rightarrow> 'db \<Rightarrow> InMemoryCache \<Rightarrow> (error + ClickStats) \<times> 'db \<times> InMemoryCache" where
  "CachedRepository_GetClickStats r bannerID now now' db c =
     (case GetClickStats bannerID now c of
        (Some st, c') \<Rightarrow> (Inr st, db, c')
      | (None, c') \<Rightarrow>
          (case repo_GetClickStats r bannerID db of
             (Inl err, db') \<Rightarrow> (Inl err, db', c')
           | (Inr st, db') \<Rightarrow>
               (Inr st, db', SetClickStats bannerID st DefaultClickStatsTTL now' c')))"

definition CachedRepository_GetTopBanners ::
  "'db Repository \<Rightarrow> int \<Rightarrow> time \<Rightarrow> time \<Rightarrow> 'db \<Rightarrow> InMemoryCache \<Rightarrow> (error + BannerClickCount list) \<times> 'db \<times> InMemoryCache" where
  "CachedRepository_GetTopBanners r limit now now' db c =
     (case GetTopBanners limit now c of
        (Some banners, c') \<Rightarrow> (Inr banners, db, c')
      | (None, c') \<Rightarrow>
          (case repo_GetTopBanners r limit db of
             (Inl err, db') \<Rightarrow> (Inl err, db', c')
           | (Inr banners, db') \<Rightarrow>
               (Inr banners, db', SetTopBanners limit banners DefaultTopBannersTTL now' c')))"

definition GetCacheStats :: "InMemoryCache \<Rightarrow> CacheStats" where
  "GetCacheStats c = Stats c"

definition ClearCache :: "InMemoryCache \<Rightarrow> InMemoryCache" where
  "ClearCache c = Clear c"

definition InvalidateBannerCache :: "int \<Rightarrow> InMemoryCache \<Rightarrow> InMemoryCache" where
  "InvalidateBannerCache bannerID c = InvalidateBanner bannerID c"

section \<open>An example backing store\<close>

text \<open>
  A backing store for the examples: the database state is the log of the calls made, and
  an operation fails exactly when its name is listed in \<open>failing\<close>.
\<close>

definition stub_result :: "string list \<Rightarrow> string \<Rightarrow> 'a \<Rightarrow> string list \<Rightarrow> (error + 'a) \<times> string list" where
  "stub_result failing name v log =
     (if name \<in> set failing then Inl (''failed: '' @ name) else Inr v, log @ [name])"

definition stub_repo :: "string list \<Rightarrow> string list Repository" where
  "stub_repo failing =
     \<lparr>repo_CreateBanner = (\<lambda>banner. stub_result failing ''CreateBanner'' (banner\<lparr>ID := 1\<rparr>)),
      repo_GetBannerByID =
        (\<lambda>bid. stub_result failing ''GetBannerByID''
           \<lparr>ID = bid, Name = ''stored'', CreatedAt = 0, UpdatedAt = 0\<rparr>),
      repo_UpdateBanner = (\<lambda>banner. stub_result failing ''UpdateBanner'' ()),
      repo_DeleteBanner = (\<lambda>bid. stub_result failing ''DeleteBanner'' ()),
      repo_CreateClick = (\<lambda>click. stub_result failing ''CreateClick'' (click\<lparr>Click_ID := 1\<rparr>)),
      repo_GetClickByID =
        (\<lambda>cid. stub_result failing ''GetClickByID''
           \<lparr>Click_ID = cid, Timestamp = 0, BannerID = 3, Click_CreatedAt = 0\<rparr>),
      repo_DeleteClick = (\<lambda>cid. stub_result failing ''DeleteClick'' ()),
      repo_GetClickStats =
        (\<lambda>bannerID. stub_result failing ''GetClickStats''
           \<lparr>Stats_BannerID = bannerID, TotalClicks = 0, FirstClick = 0, LastClick = 0\<rparr>),
      repo_GetTopBanners = (\<lambda>limit. stub_result failing ''GetTopBanners'' [])\<rparr>"

definition banner7 :: Banner where
  "banner7 = \<lparr>ID = 7, Name = ''seven'', CreatedAt = 0, UpdatedAt = 0\<rparr>"

definition click3 :: Click where
  "click3 = \<lparr>Click_ID = 0, Timestamp = 0, BannerID = 3, Click_CreatedAt = 0\<rparr>"

definition ranked :: "BannerClickCount list" where
  "ranked =
     [\<lparr>Count_BannerID = 7, BannerName = ''seven'', Count_ClickCount = 2\<rparr>,
      \<lparr>Count_BannerID = 3, BannerName = ''three'', Count_ClickCount = 1\<rparr>]"

text \<open>
  A cache whose four entries each hold a value of another dynamic type than the typed
  read of their key asserts.
\<close>

definition wrong_typed_cache :: InMemoryCache where
  "wrong_typed_cache =
     \<lparr>items =
        [(banner_key 7, \<lparr>Value = VTopBanners [], ExpiresAt = 10\<rparr>),
         (click_stats_key 7, \<lparr>Value = VBanner banner7, ExpiresAt = 10\<rparr>),
         (banner_stats_key 7, \<lparr>Value = VBanner banner7, ExpiresAt = 10\<rparr>),
         (top_banners_key 10, \<lparr>Value = VBanner banner7, ExpiresAt = 10\<rparr>)],
      stats = \<lparr>Hits = 0, Misses = 0, Sets = 4, Deletes = 0, Expirations = 0, Size = 0\<rparr>\<rparr>"

section \<open>Keys and the store\<close>

text \<open>
  The test of \<^verbatim>\<open>InvalidateTopBanners\<close> compares the first 11 bytes of the key with the
  12-byte string \<^verbatim>\<open>"top_banners:"\<close>, so it holds for no key and the loop removes
  nothing.
\<close>

lemma top_banners_prefix_never:
  "\<not> (11 < length key \<and> take 11 key = ''top_banners:'')"
proof
  assume "11 < length key \<and> take 11 key = ''top_banners:''"
  then have "length (take 11 key) = length ''top_banners:''" by simp
  then show False by simp
qed

lemma InvalidateTopBanners_loop_unchanged: "InvalidateTopBanners_loop keys c = c"
  by (induction keys arbitrary: c) (simp_all add: top_banners_prefix_never)

lemma InvalidateTopBanners_unchanged: "InvalidateTopBanners c = c"
  by (simp add: InvalidateTopBanners_def InvalidateTopBanners_loop_unchanged)

lemma map_of_delete_key:
  "map_of (AList.delete k xs) k' = (if k' = k then None else map_of xs k')"
  by (simp add: delete_conv)

lemma map_of_update_key:
  "map_of (AList.update k v xs) k' = (if k' = k then Some v else map_of xs k')"
  by (simp add: update_conv)

text \<open>A Go map holds one entry per key; the store operations keep the list that way.\<close>

lemma keys_stay_distinct:
  assumes "distinct (map fst (items c))"
  shows "distinct (map fst (items (set_item k v ttl now c)))"
    and "distinct (map fst (items (delete k c)))"
    and "distinct (map fst (items (snd (get k now c))))"
    and "distinct (map fst (items (InvalidateTopBanners c)))"
  using assms
  by (simp_all add: set_item_def delete_def get_def distinct_update distinct_delete
      InvalidateTopBanners_unchanged split: option.splits)

text \<open>The prefixes keep the four namespaces apart, whatever follows them.\<close>

lemma keys_of_different_namespaces:
  "banner_key a \<noteq> click_stats_key b" "banner_key a \<noteq> banner_stats_key b"
  "banner_key a \<noteq> top_banners_key b" "click_stats_key a \<noteq> banner_stats_key b"
  "click_stats_key a \<noteq> top_banners_key b" "banner_stats_key a \<noteq> top_banners_key b"
  by (simp_all add: banner_key_def click_stats_key_def banner_stats_key_def top_banners_key_def)

lemma keys_of_different_namespaces_sym:
  "click_stats_key b \<noteq> banner_key a" "banner_stats_key b \<noteq> banner_key a"
  "top_banners_key b \<noteq> banner_key a" "banner_stats_key b \<noteq> click_stats_key a"
  "top_banners_key b \<noteq> click_stats_key a" "top_banners_key b \<noteq> banner_stats_key a"
  by (simp_all add: banner_key_def click_stats_key_def banner_stats_key_def top_banners_key_def)

lemma get_unexpired:
  "map_of (items c) k = Some item \<Longrightarrow> \<not> IsExpired item now \<Longrightarrow>
   get k now c = (Some (Value item), c\<lparr>stats := (stats c)\<lparr>Hits := Hits (stats c) + 1\<rparr>\<rparr>)"
  by (simp add: get_def)

lemma GetBanner_wrong_type:
  assumes "map_of (items c) (banner_key bid) = Some item" "\<not> IsExpired item now"
    "\<forall>b. Value item \<noteq> VBanner b"
  shows "GetBanner bid now c = (None, c\<lparr>stats := (stats c)\<lparr>Hits := Hits (stats c) + 1\<rparr>\<rparr>)"
  using assms by (cases "Value item") (simp_all add: GetBanner_def get_unexpired)

lemma GetClickStats_wrong_type:
  assumes "map_of (items c) (click_stats_key bid) = Some item" "\<not> IsExpired item now"
    "\<forall>b. Value item \<noteq> VClickStats b"
  shows "GetClickStats bid now c = (None, c\<lparr>stats := (stats c)\<lparr>Hits := Hits (stats c) + 1\<rparr>\<rparr>)"
  using assms by (cases "Value item") (simp_all add: GetClickStats_def get_unexpired)

lemma GetBannerWithStats_wrong_type:
  assumes "map_of (items c) (banner_stats_key bid) = Some item" "\<not> IsExpired item now"
    "\<forall>b. Value item \<noteq> VBannerWithStats b"
  shows "GetBannerWithStats bid now c = (None, c\<lparr>stats := (stats c)\<lparr>Hits := Hits (stats c) + 1\<rparr>\<rparr>)"
  using assms by (cases "Value item") (simp_all add: GetBannerWithStats_def get_unexpired)

lemma GetTopBanners_wrong_type:
  assumes "map_of (items c) (top_banners_key limit) = Some item" "\<not> IsExpired item now"
    "\<forall>b. Value item \<noteq> VTopBanners b"
  shows "GetTopBanners limit now c = (None, c\<lparr>stats := (stats c)\<lparr>Hits := Hits (stats c) + 1\<rparr>\<rparr>)"
  using assms by (cases "Value item") (simp_all add: GetTopBanners_def get_unexpired)

text \<open>
  What the cascades do remove and keep: \<^verbatim>\<open>InvalidateBanner\<close> leaves no entry under the
  banner, click-statistics and banner-with-statistics keys of its id; the invalidation
  made after a click leaves every banner entry as it was.
\<close>

lemma map_of_items_delete:
  "map_of (items (delete k c)) k' = (if k' = k then None else map_of (items c) k')"
  by (auto simp: delete_def map_of_delete_key split: option.splits)

lemma InvalidateBanner_evicts_entity_entries:
  "map_of (items (InvalidateBanner bid c)) (banner_key bid) = None
   \<and> map_of (items (InvalidateBanner bid c)) (click_stats_key bid) = None
   \<and> map_of (items (InvalidateBanner bid c)) (banner_stats_key bid) = None"
  by (simp add: InvalidateBanner_def InvalidateTopBanners_unchanged InvalidateBannerWithStats_def
      InvalidateClickStats_def DeleteBanner_def map_of_items_delete)

lemma click_invalidation_keeps_banner_entry:
  "map_of (items (InvalidateTopBanners (InvalidateBannerWithStats bid (InvalidateClickStats bid c))))
     (banner_key b) = map_of (items c) (banner_key b)"
  by (simp add: InvalidateTopBanners_unchanged InvalidateBannerWithStats_def
      InvalidateClickStats_def map_of_items_delete keys_of_different_namespaces)

section \<open>Claims\<close>

text \<open>
  C1. Invalidating a banner should evict every cached top-banners entry, so that a later
  read of a previously cached limit misses and calls the backing store. The code does
  not: with the top-banners list cached for limit 10, after \<^verbatim>\<open>InvalidateBannerCache(7)\<close>,
  and likewise after a successful \<^verbatim>\<open>DeleteBanner(7)\<close>, the read for limit 10 returns the
  cached list, and the cached repository makes no backing-store call (the call log is
  left as it was).
\<close>

theorem InvalidateBanner_keeps_top_banners:
  "fst (GetTopBanners 10 1
         (InvalidateBannerCache 7 (SetTopBanners 10 ranked DefaultTopBannersTTL 0 NewInMemoryCache)))
     = Some ranked
   \<and> fst (CachedRepository_DeleteBanner (stub_repo []) 7 []
            (SetTopBanners 10 ranked DefaultTopBannersTTL 0 NewInMemoryCache)) = Inr ()
   \<and> fst (CachedRepository_GetTopBanners (stub_repo []) 10 1 2 [''DeleteBanner'']
            (snd (snd (CachedRepository_DeleteBanner (stub_repo []) 7 []
               (SetTopBanners 10 ranked DefaultTopBannersTTL 0 NewInMemoryCache)))))
     = Inr ranked
   \<and> fst (snd (CachedRepository_GetTopBanners (stub_repo []) 10 1 2 [''DeleteBanner'']
            (snd (snd (CachedRepository_DeleteBanner (stub_repo []) 7 []
               (SetTopBanners 10 ranked DefaultTopBannersTTL 0 NewInMemoryCache))))))
     = [''DeleteBanner'']"
  by (simp add: InvalidateBannerCache_def CachedRepository_DeleteBanner_def
      CachedRepository_GetTopBanners_def InvalidateBanner_def InvalidateTopBanners_unchanged
      InvalidateBannerWithStats_def InvalidateClickStats_def DeleteBanner_def
      GetTopBanners_def SetTopBanners_def get_def set_item_def delete_def
      NewInMemoryCache_def IsExpired_def DefaultTopBannersTTL_def Minute_def
      keys_of_different_namespaces keys_of_different_namespaces_sym
      stub_repo_def stub_result_def)

text \<open>
  C2. After a successful \<^verbatim>\<open>UpdateBanner\<close> the banner entry should hold the updated value.
  The code stores it and then removes it again in \<^verbatim>\<open>InvalidateBanner\<close>: after updating
  banner 7 no entry is left under its key, the next read of banner 7 misses, and
  \<^verbatim>\<open>GetBannerByID(7)\<close> calls the backing store.
\<close>

theorem UpdateBanner_evicts_refreshed_entry:
  "fst (CachedRepository_UpdateBanner (stub_repo []) (banner7\<lparr>Name := ''renamed''\<rparr>) 1 []
         (SetBanner banner7 DefaultBannerTTL 0 NewInMemoryCache)) = Inr ()
   \<and> map_of (items (snd (snd (CachedRepository_UpdateBanner (stub_repo [])
         (banner7\<lparr>Name := ''renamed''\<rparr>) 1 []
         (SetBanner banner7 DefaultBannerTTL 0 NewInMemoryCache))))) (banner_key 7) = None
   \<and> fst (GetBanner 7 2 (snd (snd (CachedRepository_UpdateBanner (stub_repo [])
         (banner7\<lparr>Name := ''renamed''\<rparr>) 1 []
         (SetBanner banner7 DefaultBannerTTL 0 NewInMemoryCache))))) = None
   \<and> fst (snd (CachedRepository_GetBannerByID (stub_repo []) 7 2 3 [''UpdateBanner'']
         (snd (snd (CachedRepository_UpdateBanner (stub_repo [])
           (banner7\<lparr>Name := ''renamed''\<rparr>) 1 []
           (SetBanner banner7 DefaultBannerTTL 0 NewInMemoryCache))))))
     = [''UpdateBanner'', ''GetBannerByID'']"
  by (simp add: CachedRepository_UpdateBanner_def CachedRepository_GetBannerByID_def
      InvalidateBanner_def InvalidateTopBanners_unchanged
      InvalidateBannerWithStats_def InvalidateClickStats_def DeleteBanner_def
      GetBanner_def SetBanner_def get_def set_item_def delete_def
      NewInMemoryCache_def banner7_def keys_of_different_namespaces
      keys_of_different_namespaces_sym stub_repo_def stub_result_def)

text \<open>
  C3. Distinct ids should give distinct keys within a namespace. The code gives the ids
  55296 and 55297 (two surrogate code points) the same banner key, so a read of banner
  55297 returns the banner stored for 55296; the ids 65 and \<open>2^32 + 65\<close> collide as
  well, and so do all negative ids.
\<close>

theorem banner_keys_collide:
  "banner_key 55296 = banner_key 55297
   \<and> fst (GetBanner 55297 1
        (SetBanner \<lparr>ID = 55296, Name = ''other'', CreatedAt = 0, UpdatedAt = 0\<rparr>
           DefaultBannerTTL 0 NewInMemoryCache))
     = Some \<lparr>ID = 55296, Name = ''other'', CreatedAt = 0, UpdatedAt = 0\<rparr>
   \<and> banner_key 65 = banner_key 4294967361
   \<and> banner_key (- 1) = banner_key (- 2)"
  by (simp add: banner_key_def rune_def string_of_rune_def
      GetBanner_def SetBanner_def get_def set_item_def 
      NewInMemoryCache_def IsExpired_def DefaultBannerTTL_def Minute_def)

text \<open>
  C4, as amended. A value set at time \<open>s\<close> with a TTL \<open>t > 0\<close> is returned by \<open>get\<close> at
  every current time up to and including the expiration instant \<open>s + t\<close>, and is a miss
  at every current time after it: \<^verbatim>\<open>IsExpired\<close> is \<^verbatim>\<open>time.Now().After(ExpiresAt)\<close>.
\<close>

theorem set_then_get_ttl:
  assumes "0 < t"
  shows "(now \<le> s + t \<longrightarrow> fst (get k now (set_item k v t s c)) = Some v)
       \<and> (s + t < now \<longrightarrow> fst (get k now (set_item k v t s c)) = None)"
  by (simp add: get_def set_item_def map_of_update_key IsExpired_def)

text \<open>The theorem at TTL 5 set at time 0: found at time 5, a miss at time 6.\<close>

theorem set_then_get_ttl_witness:
  "(0::int) < 5
   \<and> fst (get ''k'' 5 (set_item ''k'' (VTopBanners []) 5 0 NewInMemoryCache)) = Some (VTopBanners [])
   \<and> fst (get ''k'' 6 (set_item ''k'' (VTopBanners []) 5 0 NewInMemoryCache)) = None"
  using set_then_get_ttl [of 5 5 0 "''k''" "VTopBanners []" NewInMemoryCache]
    set_then_get_ttl [of 5 6 0 "''k''" "VTopBanners []" NewInMemoryCache]
  by simp

text \<open>
  C4 as stated fails at the expiration instant itself: time 5 is not strictly before
  \<open>0 + 5\<close>, and the value is still returned.
\<close>

theorem get_at_expiration_instant_counterexample:
  "\<not> ((5::int) < 0 + 5)
   \<and> fst (get ''k'' 5 (set_item ''k'' (VTopBanners []) 5 0 NewInMemoryCache)) = Some (VTopBanners [])"
  by (simp add: get_def set_item_def IsExpired_def NewInMemoryCache_def)

text \<open>
  C5. When the backing-store call of a write operation returns an error, the operation
  returns that error and the cache it was given, contents and counters unchanged. For
  \<^verbatim>\<open>DeleteClick\<close> this covers both the lookup of the click and the delete itself.
\<close>

theorem failed_write_leaves_cache:
  "(repo_CreateBanner r banner db = (Inl err, db') \<longrightarrow>
      CachedRepository_CreateBanner r banner now db c = (Inl err, db', c))
   \<and> (repo_UpdateBanner r banner db = (Inl err, db') \<longrightarrow>
      CachedRepository_UpdateBanner r banner now db c = (Inl err, db', c))
   \<and> (repo_DeleteBanner r bid db = (Inl err, db') \<longrightarrow>
      CachedRepository_DeleteBanner r bid db c = (Inl err, db', c))
   \<and> (repo_CreateClick r click db = (Inl err, db') \<longrightarrow>
      CachedRepository_CreateClick r click db c = (Inl err, db', c))
   \<and> (repo_GetClickByID r cid db = (Inl err, db') \<longrightarrow>
      CachedRepository_DeleteClick r cid db c = (Inl err, db', c))
   \<and> (repo_GetClickByID r cid db = (Inr found, db1) \<and> repo_DeleteClick r cid db1 = (Inl err, db') \<longrightarrow>
      CachedRepository_DeleteClick r cid db c = (Inl err, db', c))"
  by (simp add: CachedRepository_CreateBanner_def CachedRepository_UpdateBanner_def
      CachedRepository_DeleteBanner_def CachedRepository_CreateClick_def
      CachedRepository_DeleteClick_def)

text \<open>The theorem on the example backing store, one failing operation at a time.\<close>

theorem failed_write_leaves_cache_witness:
  "CachedRepository_CreateBanner (stub_repo [''CreateBanner'']) banner7 0 [] (SetBanner banner7 5 0 NewInMemoryCache)
     = (Inl ''failed: CreateBanner'', [''CreateBanner''], SetBanner banner7 5 0 NewInMemoryCache)
   \<and> CachedRepository_UpdateBanner (stub_repo [''UpdateBanner'']) banner7 0 [] (SetBanner banner7 5 0 NewInMemoryCache)
     = (Inl ''failed: UpdateBanner'', [''UpdateBanner''], SetBanner banner7 5 0 NewInMemoryCache)
   \<and> CachedRepository_DeleteBanner (stub_repo [''DeleteBanner'']) 7 [] (SetBanner banner7 5 0 NewInMemoryCache)
     = (Inl ''failed: DeleteBanner'', [''DeleteBanner''], SetBanner banner7 5 0 NewInMemoryCache)
   \<and> CachedRepository_CreateClick (stub_repo [''CreateClick'']) click3 [] (SetBanner banner7 5 0 NewInMemoryCache)
     = (Inl ''failed: CreateClick'', [''CreateClick''], SetBanner banner7 5 0 NewInMemoryCache)
   \<and> CachedRepository_DeleteClick (stub_repo [''GetClickByID'']) 4 [] (SetBanner banner7 5 0 NewInMemoryCache)
     = (Inl ''failed: GetClickByID'', [''GetClickByID''], SetBanner banner7 5 0 NewInMemoryCache)
   \<and> CachedRepository_DeleteClick (stub_repo [''DeleteClick'']) 4 [] (SetBanner banner7 5 0 NewInMemoryCache)
     = (Inl ''failed: DeleteClick'', [''GetClickByID'', ''DeleteClick''], SetBanner banner7 5 0 NewInMemoryCache)"
  using
    failed_write_leaves_cache [of "stub_repo [''CreateBanner'']" banner7 "[]" "''failed: CreateBanner''"
      "[''CreateBanner'']" 0 "SetBanner banner7 5 0 NewInMemoryCache"]
    failed_write_leaves_cache [of "stub_repo [''UpdateBanner'']" banner7 "[]" "''failed: UpdateBanner''"
      "[''UpdateBanner'']" 0 "SetBanner banner7 5 0 NewInMemoryCache"]
    failed_write_leaves_cache [of "stub_repo [''DeleteBanner'']" _ "[]" "''failed: DeleteBanner''"
      "[''DeleteBanner'']" _ _ 7 _ _ _ _]
    failed_write_leaves_cache [of "stub_repo [''CreateClick'']" _ "[]" "''failed: CreateClick''"
      "[''CreateClick'']" _ _ _ click3 ]
    failed_write_leaves_cache [of "stub_repo [''GetClickByID'']" _ "[]" "''failed: GetClickByID''"
      "[''GetClickByID'']" _ _ _ _ 4]
    failed_write_leaves_cache [of "stub_repo [''DeleteClick'']" _ "[]" "''failed: DeleteClick''"
      "[''GetClickByID'', ''DeleteClick'']" _ _ _ _ 4
      "\<lparr>Click_ID = 4, Timestamp = 0, BannerID = 3, Click_CreatedAt = 0\<rparr>" "[''GetClickByID'']"]
  by (simp add: stub_repo_def stub_result_def)

text \<open>
  C6. After \<^verbatim>\<open>Clear\<close> the size is 0, in \<^verbatim>\<open>Size\<close> and in \<^verbatim>\<open>Stats\<close>, and the hit, miss,
  set, delete and expiration counters of \<^verbatim>\<open>Stats\<close> are what they were before.
\<close>

theorem Clear_keeps_counters:
  "Size_cache (Clear c) = 0 \<and> Size (Stats (Clear c)) = 0
   \<and> Hits (Stats (Clear c)) = Hits (Stats c)
   \<and> Misses (Stats (Clear c)) = Misses (Stats c)
   \<and> Sets (Stats (Clear c)) = Sets (Stats c)
   \<and> Deletes (Stats (Clear c)) = Deletes (Stats c)
   \<and> Expirations (Stats (Clear c)) = Expirations (Stats c)"
  by (simp add: Clear_def Size_cache_def Stats_def)

text \<open>
  C7. A successful \<^verbatim>\<open>CreateClick\<close> should invalidate the whole top-banners family. The
  code does not: with the top-banners list cached for limit 10, after a click is
  recorded for banner 3 the read for limit 10 still returns the cached list, and the
  cached repository makes no backing-store call for it.
\<close>

theorem CreateClick_keeps_top_banners:
  "fst (CachedRepository_CreateClick (stub_repo []) click3 []
         (SetTopBanners 10 ranked DefaultTopBannersTTL 0 NewInMemoryCache))
     = Inr (click3\<lparr>Click_ID := 1\<rparr>)
   \<and> fst (GetTopBanners 10 1
        (snd (snd (CachedRepository_CreateClick (stub_repo []) click3 []
           (SetTopBanners 10 ranked DefaultTopBannersTTL 0 NewInMemoryCache)))))
     = Some ranked
   \<and> fst (snd (CachedRepository_GetTopBanners (stub_repo []) 10 1 2 [''CreateClick'']
        (snd (snd (CachedRepository_CreateClick (stub_repo []) click3 []
           (SetTopBanners 10 ranked DefaultTopBannersTTL 0 NewInMemoryCache))))))
     = [''CreateClick'']"
  by (simp add: CachedRepository_CreateClick_def CachedRepository_GetTopBanners_def
      InvalidateTopBanners_unchanged
      InvalidateBannerWithStats_def InvalidateClickStats_def 
      GetTopBanners_def SetTopBanners_def get_def set_item_def delete_def
      NewInMemoryCache_def IsExpired_def DefaultTopBannersTTL_def Minute_def click3_def
      keys_of_different_namespaces keys_of_different_namespaces_sym
      stub_repo_def stub_result_def)

text \<open>
  C8. A \<open>get\<close> on an absent key is a miss that adds one to the miss counter only; on a
  stored entry that has expired it is a miss that removes the entry and adds one to the
  expiration counter and one to the miss counter; on a stored entry that has not expired
  it returns the value and adds one to the hit counter only.
\<close>

theorem get_counters:
  assumes "get k now c = (r, c')"
  shows "(map_of (items c) k = None \<longrightarrow>
            r = None \<and> items c' = items c
            \<and> Misses (stats c') = Misses (stats c) + 1
            \<and> Hits (stats c') = Hits (stats c)
            \<and> Expirations (stats c') = Expirations (stats c)
            \<and> Sets (stats c') = Sets (stats c) \<and> Deletes (stats c') = Deletes (stats c))
       \<and> (\<forall>item. map_of (items c) k = Some item \<and> IsExpired item now \<longrightarrow>
            r = None \<and> items c' = AList.delete k (items c) \<and> map_of (items c') k = None
            \<and> Misses (stats c') = Misses (stats c) + 1
            \<and> Expirations (stats c') = Expirations (stats c) + 1
            \<and> Hits (stats c') = Hits (stats c)
            \<and> Sets (stats c') = Sets (stats c) \<and> Deletes (stats c') = Deletes (stats c))
       \<and> (\<forall>item. map_of (items c) k = Some item \<and> \<not> IsExpired item now \<longrightarrow>
            r = Some (Value item) \<and> items c' = items c
            \<and> Hits (stats c') = Hits (stats c) + 1
            \<and> Misses (stats c') = Misses (stats c)
            \<and> Expirations (stats c') = Expirations (stats c)
            \<and> Sets (stats c') = Sets (stats c) \<and> Deletes (stats c') = Deletes (stats c))"
  using assms by (auto simp: get_def map_of_delete_key split: option.splits if_splits)

text \<open>The theorem on a cache holding \<open>k\<close> until time 10: expired, absent and present.\<close>

theorem get_counters_witness:
  "fst (get ''k'' 11 (set_item ''k'' (VTopBanners []) 10 0 NewInMemoryCache)) = None
   \<and> map_of (items (snd (get ''k'' 11 (set_item ''k'' (VTopBanners []) 10 0 NewInMemoryCache)))) ''k'' = None
   \<and> Expirations (stats (snd (get ''k'' 11 (set_item ''k'' (VTopBanners []) 10 0 NewInMemoryCache)))) = 1
   \<and> Misses (stats (snd (get ''k'' 11 (set_item ''k'' (VTopBanners []) 10 0 NewInMemoryCache)))) = 1
   \<and> Hits (stats (snd (get ''k'' 11 (set_item ''k'' (VTopBanners []) 10 0 NewInMemoryCache)))) = 0
   \<and> fst (get ''x'' 11 (set_item ''k'' (VTopBanners []) 10 0 NewInMemoryCache)) = None
   \<and> Misses (stats (snd (get ''x'' 11 (set_item ''k'' (VTopBanners []) 10 0 NewInMemoryCache)))) = 1
   \<and> Expirations (stats (snd (get ''x'' 11 (set_item ''k'' (VTopBanners []) 10 0 NewInMemoryCache)))) = 0
   \<and> Hits (stats (snd (get ''x'' 11 (set_item ''k'' (VTopBanners []) 10 0 NewInMemoryCache)))) = 0
   \<and> fst (get ''k'' 10 (set_item ''k'' (VTopBanners []) 10 0 NewInMemoryCache)) = Some (VTopBanners [])
   \<and> Hits (stats (snd (get ''k'' 10 (set_item ''k'' (VTopBanners []) 10 0 NewInMemoryCache)))) = 1
   \<and> Misses (stats (snd (get ''k'' 10 (set_item ''k'' (VTopBanners []) 10 0 NewInMemoryCache)))) = 0
   \<and> Expirations (stats (snd (get ''k'' 10 (set_item ''k'' (VTopBanners []) 10 0 NewInMemoryCache)))) = 0"
  using
    get_counters [of "''k''" 11 "set_item ''k'' (VTopBanners []) 10 0 NewInMemoryCache", OF surjective_pairing]
    get_counters [of "''x''" 11 "set_item ''k'' (VTopBanners []) 10 0 NewInMemoryCache", OF surjective_pairing]
    get_counters [of "''k''" 10 "set_item ''k'' (VTopBanners []) 10 0 NewInMemoryCache", OF surjective_pairing]
  by (simp add: set_item_def NewInMemoryCache_def IsExpired_def)

text \<open>
  C9. \<open>delete\<close> is idempotent: a second \<open>delete\<close> of the same key changes nothing.
  Deleting an absent key returns the cache unchanged; deleting a present key removes it
  and adds one to the delete counter, once for the two calls.
\<close>

theorem delete_idempotent:
  "delete k (delete k c) = delete k c
   \<and> (map_of (items c) k = None \<longrightarrow> delete k c = c)
   \<and> (map_of (items c) k \<noteq> None \<longrightarrow>
        map_of (items (delete k c)) k = None
        \<and> Deletes (stats (delete k c)) = Deletes (stats c) + 1
        \<and> Deletes (stats (delete k (delete k c))) = Deletes (stats c) + 1)"
  by (auto simp: delete_def map_of_delete_key split: option.splits)

text \<open>The theorem on a cache holding \<open>k\<close>: \<open>k\<close> deleted twice, and the absent \<open>x\<close>.\<close>

theorem delete_idempotent_witness:
  "delete ''k'' (delete ''k'' (set_item ''k'' (VTopBanners []) 10 0 NewInMemoryCache))
     = delete ''k'' (set_item ''k'' (VTopBanners []) 10 0 NewInMemoryCache)
   \<and> Deletes (stats (delete ''k'' (set_item ''k'' (VTopBanners []) 10 0 NewInMemoryCache))) = 1
   \<and> Deletes (stats (delete ''k'' (delete ''k'' (set_item ''k'' (VTopBanners []) 10 0 NewInMemoryCache)))) = 1
   \<and> map_of (items (delete ''k'' (set_item ''k'' (VTopBanners []) 10 0 NewInMemoryCache))) ''k'' = None
   \<and> delete ''x'' (set_item ''k'' (VTopBanners []) 10 0 NewInMemoryCache)
     = set_item ''k'' (VTopBanners []) 10 0 NewInMemoryCache"
  using
    delete_idempotent [of "''k''" "set_item ''k'' (VTopBanners []) 10 0 NewInMemoryCache"]
    delete_idempotent [of "''x''" "set_item ''k'' (VTopBanners []) 10 0 NewInMemoryCache"]
  by (simp add: set_item_def NewInMemoryCache_def)

text \<open>
  C10. When a typed read (\<^verbatim>\<open>GetBanner\<close>, \<^verbatim>\<open>GetClickStats\<close>, \<^verbatim>\<open>GetBannerWithStats\<close>,
  \<^verbatim>\<open>GetTopBanners\<close>) finds an unexpired entry whose value fails the type assertion, it
  returns \<^verbatim>\<open>found = false\<close>, yet the hit counter is incremented and the miss counter is
  not. The cached repository then calls the backing store, returns its result and
  stores it under the same key, replacing the bad entry.
\<close>

theorem wrong_type_read_counts_hit:
  assumes "\<not> IsExpired item now"
  shows
    "(map_of (items c) (banner_key bid) = Some item \<and> (\<forall>b. Value item \<noteq> VBanner b) \<longrightarrow>
        fst (GetBanner bid now c) = None
        \<and> Hits (stats (snd (GetBanner bid now c))) = Hits (stats c) + 1
        \<and> Misses (stats (snd (GetBanner bid now c))) = Misses (stats c))
     \<and> (map_of (items c) (click_stats_key bid) = Some item \<and> (\<forall>s. Value item \<noteq> VClickStats s) \<longrightarrow>
        fst (GetClickStats bid now c) = None
        \<and> Hits (stats (snd (GetClickStats bid now c))) = Hits (stats c) + 1
        \<and> Misses (stats (snd (GetClickStats bid now c))) = Misses (stats c))
     \<and> (map_of (items c) (banner_stats_key bid) = Some item \<and> (\<forall>s. Value item \<noteq> VBannerWithStats s) \<longrightarrow>
        fst (GetBannerWithStats bid now c) = None
        \<and> Hits (stats (snd (GetBannerWithStats bid now c))) = Hits (stats c) + 1
        \<and> Misses (stats (snd (GetBannerWithStats bid now c))) = Misses (stats c))
     \<and> (map_of (items c) (top_banners_key limit) = Some item \<and> (\<forall>bs. Value item \<noteq> VTopBanners bs) \<longrightarrow>
        fst (GetTopBanners limit now c) = None
        \<and> Hits (stats (snd (GetTopBanners limit now c))) = Hits (stats c) + 1
        \<and> Misses (stats (snd (GetTopBanners limit now c))) = Misses (stats c))
     \<and> (map_of (items c) (banner_key bid) = Some item \<and> (\<forall>b. Value item \<noteq> VBanner b)
          \<and> repo_GetBannerByID r bid db = (Inr banner, db') \<and> ID banner = bid \<longrightarrow>
        fst (CachedRepository_GetBannerByID r bid now now' db c) = Inr banner
        \<and> fst (snd (CachedRepository_GetBannerByID r bid now now' db c)) = db'
        \<and> map_of (items (snd (snd (CachedRepository_GetBannerByID r bid now now' db c)))) (banner_key bid)
            = Some \<lparr>Value = VBanner banner, ExpiresAt = now' + DefaultBannerTTL\<rparr>)
     \<and> (map_of (items c) (click_stats_key bid) = Some item \<and> (\<forall>s. Value item \<noteq> VClickStats s)
          \<and> repo_GetClickStats r bid db = (Inr st, db') \<longrightarrow>
        fst (CachedRepository_GetClickStats r bid now now' db c) = Inr st
        \<and> fst (snd (CachedRepository_GetClickStats r bid now now' db c)) = db'
        \<and> map_of (items (snd (snd (CachedRepository_GetClickStats r bid now now' db c)))) (click_stats_key bid)
            = Some \<lparr>Value = VClickStats st, ExpiresAt = now' + DefaultClickStatsTTL\<rparr>)
     \<and> (map_of (items c) (top_banners_key limit) = Some item \<and> (\<forall>bs. Value item \<noteq> VTopBanners bs)
          \<and> repo_GetTopBanners r limit db = (Inr banners, db') \<longrightarrow>
        fst (CachedRepository_GetTopBanners r limit now now' db c) = Inr banners
        \<and> fst (snd (CachedRepository_GetTopBanners r limit now now' db c)) = db'
        \<and> map_of (items (snd (snd (CachedRepository_GetTopBanners r limit now now' db c)))) (top_banners_key limit)
            = Some \<lparr>Value = VTopBanners banners, ExpiresAt = now' + DefaultTopBannersTTL\<rparr>)"
proof (intro conjI impI)
  assume h: "map_of (items c) (banner_key bid) = Some item \<and> (\<forall>b. Value item \<noteq> VBanner b)"
  from h assms have e: "GetBanner bid now c = (None, c\<lparr>stats := (stats c)\<lparr>Hits := Hits (stats c) + 1\<rparr>\<rparr>)"
    by (simp add: GetBanner_wrong_type)
  show "fst (GetBanner bid now c) = None" by (simp add: e)
  show "Hits (stats (snd (GetBanner bid now c))) = Hits (stats c) + 1" by (simp add: e)
  show "Misses (stats (snd (GetBanner bid now c))) = Misses (stats c)" by (simp add: e)
next
  assume h: "map_of (items c) (click_stats_key bid) = Some item \<and> (\<forall>s. Value item \<noteq> VClickStats s)"
  from h assms have e: "GetClickStats bid now c = (None, c\<lparr>stats := (stats c)\<lparr>Hits := Hits (stats c) + 1\<rparr>\<rparr>)"
    by (simp add: GetClickStats_wrong_type)
  show "fst (GetClickStats bid now c) = None" by (simp add: e)
  show "Hits (stats (snd (GetClickStats bid now c))) = Hits (stats c) + 1" by (simp add: e)
  show "Misses (stats (snd (GetClickStats bid now c))) = Misses (stats c)" by (simp add: e)
next
  assume h: "map_of (items c) (banner_stats_key bid) = Some item \<and> (\<forall>s. Value item \<noteq> VBannerWithStats s)"
  from h assms have e: "GetBannerWithStats bid now c = (None, c\<lparr>stats := (stats c)\<lparr>Hits := Hits (stats c) + 1\<rparr>\<rparr>)"
    by (simp add: GetBannerWithStats_wrong_type)
  show "fst (GetBannerWithStats bid now c) = None" by (simp add: e)
  show "Hits (stats (snd (GetBannerWithStats bid now c))) = Hits (stats c) + 1" by (simp add: e)
  show "Misses (stats (snd (GetBannerWithStats bid now c))) = Misses (stats c)" by (simp add: e)
next
  assume h: "map_of (items c) (top_banners_key limit) = Some item \<and> (\<forall>bs. Value item \<noteq> VTopBanners bs)"
  from h assms have e: "GetTopBanners limit now c = (None, c\<lparr>stats := (stats c)\<lparr>Hits := Hits (stats c) + 1\<rparr>\<rparr>)"
    by (simp add: GetTopBanners_wrong_type)
  show "fst (GetTopBanners limit now c) = None" by (simp add: e)
  show "Hits (stats (snd (GetTopBanners limit now c))) = Hits (stats c) + 1" by (simp add: e)
  show "Misses (stats (snd (GetTopBanners limit now c))) = Misses (stats c)" by (simp add: e)
next
  assume h: "map_of (items c) (banner_key bid) = Some item \<and> (\<forall>b. Value item \<noteq> VBanner b)
          \<and> repo_GetBannerByID r bid db = (Inr banner, db') \<and> ID banner = bid"
  from h assms have e: "GetBanner bid now c = (None, c\<lparr>stats := (stats c)\<lparr>Hits := Hits (stats c) + 1\<rparr>\<rparr>)"
    by (simp add: GetBanner_wrong_type)
  from h have f: "CachedRepository_GetBannerByID r bid now now' db c
      = (Inr banner, db', SetBanner banner DefaultBannerTTL now' (c\<lparr>stats := (stats c)\<lparr>Hits := Hits (stats c) + 1\<rparr>\<rparr>))"
    by (simp add: CachedRepository_GetBannerByID_def e)
  show "fst (CachedRepository_GetBannerByID r bid now now' db c) = Inr banner" by (simp add: f)
  show "fst (snd (CachedRepository_GetBannerByID r bid now now' db c)) = db'" by (simp add: f)
  show "map_of (items (snd (snd (CachedRepository_GetBannerByID r bid now now' db c)))) (banner_key bid)
            = Some \<lparr>Value = VBanner banner, ExpiresAt = now' + DefaultBannerTTL\<rparr>"
    using h by (simp add: f SetBanner_def set_item_def map_of_update_key)
next
  assume h: "map_of (items c) (click_stats_key bid) = Some item \<and> (\<forall>s. Value item \<noteq> VClickStats s)
          \<and> repo_GetClickStats r bid db = (Inr st, db')"
  from h assms have e: "GetClickStats bid now c = (None, c\<lparr>stats := (stats c)\<lparr>Hits := Hits (stats c) + 1\<rparr>\<rparr>)"
    by (simp add: GetClickStats_wrong_type)
  from h have f: "CachedRepository_GetClickStats r bid now now' db c
      = (Inr st, db', SetClickStats bid st DefaultClickStatsTTL now' (c\<lparr>stats := (stats c)\<lparr>Hits := Hits (stats c) + 1\<rparr>\<rparr>))"
    by (simp add: CachedRepository_GetClickStats_def e)
  show "fst (CachedRepository_GetClickStats r bid now now' db c) = Inr st" by (simp add: f)
  show "fst (snd (CachedRepository_GetClickStats r bid now now' db c)) = db'" by (simp add: f)
  show "map_of (items (snd (snd (CachedRepository_GetClickStats r bid now now' db c)))) (click_stats_key bid)
            = Some \<lparr>Value = VClickStats st, ExpiresAt = now' + DefaultClickStatsTTL\<rparr>"
    by (simp add: f SetClickStats_def set_item_def map_of_update_key)
next
  assume h: "map_of (items c) (top_banners_key limit) = Some item \<and> (\<forall>bs. Value item \<noteq> VTopBanners bs)
          \<and> repo_GetTopBanners r limit db = (Inr banners, db')"
  from h assms have e: "GetTopBanners limit now c = (None, c\<lparr>stats := (stats c)\<lparr>Hits := Hits (stats c) + 1\<rparr>\<rparr>)"
    by (simp add: GetTopBanners_wrong_type)
  from h have f: "CachedRepository_GetTopBanners r limit now now' db c
      = (Inr banners, db', SetTopBanners limit banners DefaultTopBannersTTL now' (c\<lparr>stats := (stats c)\<lparr>Hits := Hits (stats c) + 1\<rparr>\<rparr>))"
    by (simp add: CachedRepository_GetTopBanners_def e)
  show "fst (CachedRepository_GetTopBanners r limit now now' db c) = Inr banners" by (simp add: f)
  show "fst (snd (CachedRepository_GetTopBanners r limit now now' db c)) = db'" by (simp add: f)
  show "map_of (items (snd (snd (CachedRepository_GetTopBanners r limit now now' db c)))) (top_banners_key limit)
            = Some \<lparr>Value = VTopBanners banners, ExpiresAt = now' + DefaultTopBannersTTL\<rparr>"
    by (simp add: f SetTopBanners_def set_item_def map_of_update_key)
qed

text \<open>The theorem on the cache of wrongly typed entries, read at time 1.\<close>

theorem wrong_type_read_counts_hit_witness:
  "\<not> IsExpired \<lparr>Value = VTopBanners [], ExpiresAt = 10\<rparr> 1
   \<and> \<not> IsExpired \<lparr>Value = VBanner banner7, ExpiresAt = 10\<rparr> 1
   \<and> fst (GetBanner 7 1 wrong_typed_cache) = None
   \<and> Hits (stats (snd (GetBanner 7 1 wrong_typed_cache))) = 1
   \<and> Misses (stats (snd (GetBanner 7 1 wrong_typed_cache))) = 0
   \<and> fst (GetClickStats 7 1 wrong_typed_cache) = None
   \<and> Hits (stats (snd (GetClickStats 7 1 wrong_typed_cache))) = 1
   \<and> Misses (stats (snd (GetClickStats 7 1 wrong_typed_cache))) = 0
   \<and> fst (GetBannerWithStats 7 1 wrong_typed_cache) = None
   \<and> Hits (stats (snd (GetBannerWithStats 7 1 wrong_typed_cache))) = 1
   \<and> Misses (stats (snd (GetBannerWithStats 7 1 wrong_typed_cache))) = 0
   \<and> fst (GetTopBanners 10 1 wrong_typed_cache) = None
   \<and> Hits (stats (snd (GetTopBanners 10 1 wrong_typed_cache))) = 1
   \<and> Misses (stats (snd (GetTopBanners 10 1 wrong_typed_cache))) = 0
   \<and> fst (CachedRepository_GetBannerByID (stub_repo []) 7 1 2 [] wrong_typed_cache)
       = Inr \<lparr>ID = 7, Name = ''stored'', CreatedAt = 0, UpdatedAt = 0\<rparr>
   \<and> fst (snd (CachedRepository_GetBannerByID (stub_repo []) 7 1 2 [] wrong_typed_cache))
       = [''GetBannerByID'']
   \<and> map_of (items (snd (snd (CachedRepository_GetBannerByID (stub_repo []) 7 1 2 [] wrong_typed_cache))))
        (banner_key 7)
       = Some \<lparr>Value = VBanner \<lparr>ID = 7, Name = ''stored'', CreatedAt = 0, UpdatedAt = 0\<rparr>,
               ExpiresAt = 2 + DefaultBannerTTL\<rparr>
   \<and> fst (CachedRepository_GetClickStats (stub_repo []) 7 1 2 [] wrong_typed_cache)
       = Inr \<lparr>Stats_BannerID = 7, TotalClicks = 0, FirstClick = 0, LastClick = 0\<rparr>
   \<and> fst (snd (CachedRepository_GetClickStats (stub_repo []) 7 1 2 [] wrong_typed_cache))
       = [''GetClickStats'']
   \<and> map_of (items (snd (snd (CachedRepository_GetClickStats (stub_repo []) 7 1 2 [] wrong_typed_cache))))
        (click_stats_key 7)
       = Some \<lparr>Value = VClickStats \<lparr>Stats_BannerID = 7, TotalClicks = 0, FirstClick = 0, LastClick = 0\<rparr>,
               ExpiresAt = 2 + DefaultClickStatsTTL\<rparr>
   \<and> fst (CachedRepository_GetTopBanners (stub_repo []) 10 1 2 [] wrong_typed_cache) = Inr []
   \<and> fst (snd (CachedRepository_GetTopBanners (stub_repo []) 10 1 2 [] wrong_typed_cache))
       = [''GetTopBanners'']
   \<and> map_of (items (snd (snd (CachedRepository_GetTopBanners (stub_repo []) 10 1 2 [] wrong_typed_cache))))
        (top_banners_key 10)
       = Some \<lparr>Value = VTopBanners [], ExpiresAt = 2 + DefaultTopBannersTTL\<rparr>"
  using
    wrong_type_read_counts_hit [where item = "\<lparr>Value = VTopBanners [], ExpiresAt = 10\<rparr>"
      and now = 1 and c = wrong_typed_cache and bid = 7 and r = "stub_repo []" and db = "[]"
      and banner = "\<lparr>ID = 7, Name = ''stored'', CreatedAt = 0, UpdatedAt = 0\<rparr>"
      and db' = "[''GetBannerByID'']" and now' = 2]
    wrong_type_read_counts_hit [where item = "\<lparr>Value = VBanner banner7, ExpiresAt = 10\<rparr>"
      and now = 1 and c = wrong_typed_cache and bid = 7 and limit = 10 and r = "stub_repo []"
      and db = "[]" and db' = "[''GetClickStats'']" and now' = 2
      and st = "\<lparr>Stats_BannerID = 7, TotalClicks = 0, FirstClick = 0, LastClick = 0\<rparr>"]
    wrong_type_read_counts_hit [where item = "\<lparr>Value = VBanner banner7, ExpiresAt = 10\<rparr>"
      and now = 1 and c = wrong_typed_cache and limit = 10 and r = "stub_repo []"
      and db = "[]" and db' = "[''GetTopBanners'']" and now' = 2 and banners = "[]"]
  by (simp add: wrong_typed_cache_def IsExpired_def keys_of_different_namespaces
      keys_of_different_namespaces_sym stub_repo_def stub_result_def)

end
